theory Spec2Isabelle
  imports Main "HOL-Library.Sublist"
begin

section \<open>Python values used by the command gateway\<close>

text \<open>
  The two modules \<^verbatim>\<open>assistant/tools/windows_automator.py\<close> and
  \<^verbatim>\<open>assistant/tools/vm_manager.py\<close> build an argument vector, hand it to
  \<^verbatim>\<open>subprocess.run\<close> and turn what comes back into a pair
  \<^verbatim>\<open>(bool, str)\<close>. A Python \<^verbatim>\<open>str\<close> is a sequence of Unicode code
  points, so it is modelled as a list of natural numbers; \<open>lit\<close> embeds an ASCII
  literal. The Portuguese messages of the source contain a few letters beyond ASCII;
  they are written by code point (243 is o-acute, 227 a-tilde, 231 c-cedilla,
  237 i-acute).
\<close>

type_synonym pystr = "nat list"

definition lit :: "string \<Rightarrow> pystr" where
  "lit cs = map of_char cs"

text \<open>
  \<^verbatim>\<open>str.strip()\<close> without argument removes leading and trailing characters for
  which \<^verbatim>\<open>str.isspace()\<close> holds. These are exactly the code points below.
\<close>

definition isspace :: "nat \<Rightarrow> bool" where
  "isspace c \<longleftrightarrow>
     (9 \<le> c \<and> c \<le> 13) \<or> (28 \<le> c \<and> c \<le> 32) \<or> c = 133 \<or> c = 160 \<or> c = 5760 \<or>
     (8192 \<le> c \<and> c \<le> 8202) \<or> c = 8232 \<or> c = 8233 \<or> c = 8239 \<or> c = 8287 \<or>
     c = 12288"

definition strip :: "pystr \<Rightarrow> pystr" where
  "strip t = rev (dropWhile isspace (rev (dropWhile isspace t)))"

text \<open>The decimal text of an integer, as an f-string prints it.\<close>

fun nat_digits :: "nat \<Rightarrow> pystr" where
  "nat_digits n = (if n < 10 then [48 + n] else nat_digits (n div 10) @ [48 + n mod 10])"

declare nat_digits.simps [simp del]

definition str_int :: "int \<Rightarrow> pystr" where
  "str_int i = (if i < 0 then 45 # nat_digits (nat (- i)) else nat_digits (nat i))"

text \<open>
  A parameter with a default value is an optional argument: \<open>None\<close> is the call that
  omits it.
\<close>

definition arg_or :: "'a option \<Rightarrow> 'a \<Rightarrow> 'a" where
  "arg_or given dflt = (case given of None \<Rightarrow> dflt | Some v \<Rightarrow> v)"

text \<open>
  The exceptions that occur. \<^verbatim>\<open>FileNotFoundError\<close> and
  \<^verbatim>\<open>TimeoutExpired\<close> have handlers of their own in the source; every other
  exception is named by its class and carries the text that \<^verbatim>\<open>str(e)\<close> gives.
  All of them are subclasses of \<^verbatim>\<open>Exception\<close>.
\<close>

datatype exception_class = UnicodeDecodeError | TypeError | IndexError | OSError

datatype py_exception =
    FileNotFoundError
  | TimeoutExpired
  | Exception exception_class pystr

text \<open>
  \<^verbatim>\<open>list.append\<close> takes exactly one argument; the call is modelled with the list
  of the arguments it was given.
\<close>

definition list_append :: "pystr list \<Rightarrow> pystr list \<Rightarrow> py_exception + pystr list" where
  "list_append xs given =
     (case given of
        [x] \<Rightarrow> Inr (xs @ [x])
      | _ \<Rightarrow> Inl (Exception TypeError (lit ''list.append() takes exactly one argument ('' @
                 str_int (int (length given)) @ lit '' given)'')))"

section \<open>The environment: \<^verbatim>\<open>subprocess.run\<close>\<close>

text \<open>
  Both executors call
  \<^verbatim>\<open>subprocess.run(args, capture_output=True, text=True, encoding=..., timeout=..., check=False)\<close>.
  A call is recorded with the arguments that vary: the argument vector, the encoding,
  the error handler of the decoder (the source never passes one, so the decoder is
  strict) and the timeout in seconds.
\<close>

record run_call =
  call_args :: "pystr list"
  call_encoding :: pystr
  call_errors :: "pystr option"
  call_timeout :: int

text \<open>
  What a started child does, as \<^verbatim>\<open>subprocess.run\<close> observes it:
  \<^item> \<open>Exits rc out err\<close>: it exited within the timeout with return code \<open>rc\<close>, and its
    captured streams were decoded (line ends translated, as \<^verbatim>\<open>text=True\<close> asks)
    to the texts \<open>out\<close> and \<open>err\<close>;
  \<^item> \<open>Hangs\<close>: it had not exited when the timeout elapsed;
  \<^item> \<open>Undecodable m\<close>: it exited, but its captured bytes are not valid in the requested
    encoding under the requested error handler; \<open>m\<close> is the decoder's message;
  \<^item> \<open>SpawnFails m\<close>: the operating system refused to create the process for a reason
    other than a missing executable.
\<close>

datatype child_outcome =
    Exits int pystr pystr
  | Hangs
  | Undecodable pystr
  | SpawnFails pystr

record completed_process =
  returncode :: int
  stdout :: pystr
  stderr :: pystr

text \<open>
  The world outside the program: which program names can be located, what a child
  started by a given call does, and the calls made so far.
\<close>

record world =
  locatable :: "pystr \<Rightarrow> bool"
  child :: "run_call \<Rightarrow> child_outcome"
  run_calls :: "run_call list"

text \<open>
  \<open>run_invocation argv enc secs\<close> is the call as both executors write it, with no
  error handler. \<^verbatim>\<open>subprocess.run\<close>: the program is the first element of the argument vector
  (an empty vector has none: CPython raises \<^verbatim>\<open>IndexError\<close> on POSIX); a program
  that cannot be located raises \<^verbatim>\<open>FileNotFoundError\<close>; a child that outlives
  the timeout raises \<^verbatim>\<open>TimeoutExpired\<close>. Only a located program becomes a
  child process.
\<close>

definition run_invocation :: "pystr list \<Rightarrow> pystr \<Rightarrow> int \<Rightarrow> run_call" where
  "run_invocation argv enc secs =
     \<lparr>call_args = argv, call_encoding = enc, call_errors = None, call_timeout = secs\<rparr>"

definition subprocess_run ::
  "world \<Rightarrow> pystr list \<Rightarrow> pystr \<Rightarrow> int \<Rightarrow> (py_exception + completed_process) \<times> world" where
  "subprocess_run w argv enc secs =
     (let c = run_invocation argv enc secs;
          w' = w\<lparr>run_calls := run_calls w @ [c]\<rparr>
      in case argv of
           [] \<Rightarrow> (Inl (Exception IndexError (lit ''list index out of range'')), w')
         | program # _ \<Rightarrow>
             if \<not> locatable w program then (Inl FileNotFoundError, w')
             else (case child w c of
                     Exits rc out err \<Rightarrow>
                       (Inr \<lparr>returncode = rc, stdout = out, stderr = err\<rparr>, w')
                   | Hangs \<Rightarrow> (Inl TimeoutExpired, w')
                   | Undecodable m \<Rightarrow> (Inl (Exception UnicodeDecodeError m), w')
                   | SpawnFails m \<Rightarrow> (Inl (Exception OSError m), w')))"

section \<open>\<^verbatim>\<open>windows_automator.execute_command\<close>\<close>

text \<open>
  The shell wrapping of lines 57 to 65: \<open>None\<close> is the \<^verbatim>\<open>else\<close> branch, which
  returns before anything is run.
\<close>

definition full_command :: "pystr \<Rightarrow> pystr list \<Rightarrow> pystr list option" where
  "full_command shell_type command =
     (if shell_type = lit ''powershell''
      then Some ([lit ''powershell'', lit ''-NoProfile'', lit ''-Command''] @ command)
      else if shell_type = lit ''cmd''
      then Some ([lit ''cmd'', lit ''/c''] @ command)
      else None)"

text \<open>The messages of the source, one per \<^verbatim>\<open>return\<close>.\<close>

definition unknown_shell_message :: "pystr \<Rightarrow> pystr" where
  "unknown_shell_message shell_type = lit ''Tipo de shell desconhecido: '' @ shell_type"

definition error_message :: "pystr \<Rightarrow> completed_process \<Rightarrow> pystr" where
  "error_message what result =
     (let error_message =
            lit ''Erro ao executar '' @ what @ lit '' (c'' @ [243] @ lit ''digo '' @
            str_int (returncode result) @ lit ''):\<newline>'' @ strip (stderr result)
      in if stdout result \<noteq> []
         then error_message @ lit ''\<newline>Sa'' @ [237] @ lit ''da (stdout):\<newline>'' @
              strip (stdout result)
         else error_message)"

definition shell_not_found_message :: "pystr \<Rightarrow> pystr" where
  "shell_not_found_message shell_type =
     lit ''Erro: '' @ [39] @ shell_type @ [39] @ lit '' n'' @ [227] @
     lit ''o encontrado. Verifique a instala'' @ [231, 227] @ lit ''o e o PATH.''"

definition command_timeout_message :: "int \<Rightarrow> pystr" where
  "command_timeout_message secs =
     lit ''Erro: O comando excedeu o tempo limite de '' @ str_int secs @ lit '' segundos.''"

definition command_unexpected_message :: "pystr \<Rightarrow> pystr" where
  "command_unexpected_message e = lit ''Erro inesperado ao executar o comando: '' @ e"

text \<open>
  The body of the \<^verbatim>\<open>try\<close> (lines 56 to 88): an exception leaves it as \<open>Inl\<close>.
\<close>

definition execute_command_try ::
  "world \<Rightarrow> pystr list \<Rightarrow> pystr \<Rightarrow> int \<Rightarrow> (py_exception + bool \<times> pystr) \<times> world" where
  "execute_command_try w command shell_type secs =
     (case full_command shell_type command of
        None \<Rightarrow> (Inr (False, unknown_shell_message shell_type), w)
      | Some argv \<Rightarrow>
          (case subprocess_run w argv (lit ''cp850'') secs of
             (Inl e, w') \<Rightarrow> (Inl e, w')
           | (Inr result, w') \<Rightarrow>
               if returncode result = 0 then (Inr (True, strip (stdout result)), w')
               else (Inr (False, error_message (lit ''comando'') result), w')))"

text \<open>
  The function with its three handlers (lines 90 to 97); the last one catches every
  exception of the model. The arguments \<^verbatim>\<open>shell_type\<close> and \<^verbatim>\<open>timeout\<close>
  default to \<^verbatim>\<open>"cmd"\<close> and 30. The warning printed on a platform other than
  Windows does not change the result and is left out.
\<close>

definition execute_command ::
  "world \<Rightarrow> pystr list \<Rightarrow> pystr option \<Rightarrow> int option \<Rightarrow> (py_exception + bool \<times> pystr) \<times> world" where
  "execute_command w command shell_type_arg timeout_arg =
     (let shell_type = arg_or shell_type_arg (lit ''cmd'');
          secs = arg_or timeout_arg 30
      in case execute_command_try w command shell_type secs of
           (Inr r, w') \<Rightarrow> (Inr r, w')
         | (Inl FileNotFoundError, w') \<Rightarrow> (Inr (False, shell_not_found_message shell_type), w')
         | (Inl TimeoutExpired, w') \<Rightarrow> (Inr (False, command_timeout_message secs), w')
         | (Inl (Exception cls e), w') \<Rightarrow> (Inr (False, command_unexpected_message e), w'))"

section \<open>\<^verbatim>\<open>vm_manager\<close>\<close>

text \<open>
  The messages of \<^verbatim>\<open>_execute_vm_command\<close>. The literal of the
  \<^verbatim>\<open>FileNotFoundError\<close> handler is broken across lines 65 and 66 of the source;
  the model keeps the characters that stand between its quotes, the line break and
  the fourteen blanks of indentation included.
\<close>

definition tool_not_found_message :: "pystr \<Rightarrow> pystr" where
  "tool_not_found_message tool_name =
     lit ''Erro: Ferramenta \<newline>              '' @ [39] @ tool_name @ [39] @ lit '' n'' @ [227] @
     lit ''o encontrada. Verifique a instala'' @ [231, 227] @ lit ''o e o PATH.''"

definition tool_timeout_message :: "pystr \<Rightarrow> int \<Rightarrow> pystr" where
  "tool_timeout_message tool_name secs =
     lit ''Erro: O comando '' @ tool_name @ lit '' excedeu o tempo limite de '' @
     str_int secs @ lit '' segundos.''"

definition tool_unexpected_message :: "pystr \<Rightarrow> pystr \<Rightarrow> pystr" where
  "tool_unexpected_message tool_name e =
     lit ''Erro inesperado ao executar '' @ tool_name @ lit '': '' @ e"

text \<open>The body of the \<^verbatim>\<open>try\<close> of \<^verbatim>\<open>_execute_vm_command\<close> (lines 47 to 62).\<close>

definition execute_vm_command_try ::
  "world \<Rightarrow> pystr list \<Rightarrow> pystr \<Rightarrow> int \<Rightarrow> (py_exception + bool \<times> pystr) \<times> world" where
  "execute_vm_command_try w command tool_name secs =
     (case subprocess_run w command (lit ''utf-8'') secs of
        (Inl e, w') \<Rightarrow> (Inl e, w')
      | (Inr result, w') \<Rightarrow>
          if returncode result = 0 then (Inr (True, strip (stdout result)), w')
          else (Inr (False, error_message tool_name result), w'))"

text \<open>
  \<^verbatim>\<open>_execute_vm_command(command, tool_name, timeout=60)\<close> with its handlers
  (lines 64 to 70). A HOL name cannot start with an underscore. As in
  \<^verbatim>\<open>execute_command\<close>, the warning printed on a platform other than Windows
  is left out.
\<close>

definition execute_vm_command ::
  "world \<Rightarrow> pystr list \<Rightarrow> pystr \<Rightarrow> int option \<Rightarrow> (py_exception + bool \<times> pystr) \<times> world" where
  "execute_vm_command w command tool_name timeout_arg =
     (let secs = arg_or timeout_arg 60
      in case execute_vm_command_try w command tool_name secs of
           (Inr r, w') \<Rightarrow> (Inr r, w')
         | (Inl FileNotFoundError, w') \<Rightarrow> (Inr (False, tool_not_found_message tool_name), w')
         | (Inl TimeoutExpired, w') \<Rightarrow> (Inr (False, tool_timeout_message tool_name secs), w')
         | (Inl (Exception cls e), w') \<Rightarrow>
             (Inr (False, tool_unexpected_message tool_name e), w'))"

subsection \<open>VirtualBox\<close>

text \<open>
  \<^verbatim>\<open>command.extend(xs)\<close> is \<open>command @ xs\<close> and \<^verbatim>\<open>command.append(x)\<close> is
  \<open>command @ [x]\<close>. The flags \<^verbatim>\<open>headless\<close>, \<^verbatim>\<open>force\<close> and
  \<^verbatim>\<open>nogui\<close> default to \<^verbatim>\<open>False\<close> in the source.
\<close>

definition list_vbox_vms :: "world \<Rightarrow> (py_exception + bool \<times> pystr) \<times> world" where
  "list_vbox_vms w =
     (let command = [lit ''VBoxManage'', lit ''list'', lit ''vms'']
      in execute_vm_command w command (lit ''VBoxManage'') None)"

definition start_vbox_vm ::
  "world \<Rightarrow> pystr \<Rightarrow> bool \<Rightarrow> (py_exception + bool \<times> pystr) \<times> world" where
  "start_vbox_vm w vm_name_or_uuid headless =
     (let command = [lit ''VBoxManage'', lit ''startvm'', vm_name_or_uuid];
          command = (if headless then command @ [lit ''--type'', lit ''headless'']
                     else command @ [lit ''--type'', lit ''gui''])
      in execute_vm_command w command (lit ''VBoxManage'') (Some 120))"

definition stop_vbox_vm ::
  "world \<Rightarrow> pystr \<Rightarrow> bool \<Rightarrow> (py_exception + bool \<times> pystr) \<times> world" where
  "stop_vbox_vm w vm_name_or_uuid force =
     (let command = [lit ''VBoxManage'', lit ''controlvm'', vm_name_or_uuid];
          command = (if force then command @ [lit ''poweroff'']
                     else command @ [lit ''acpipowerbutton''])
      in execute_vm_command w command (lit ''VBoxManage'') (Some 90))"

subsection \<open>VMware\<close>

definition list_vmware_running_vms :: "world \<Rightarrow> (py_exception + bool \<times> pystr) \<times> world" where
  "list_vmware_running_vms w =
     (let command = [lit ''vmrun'', lit ''list'']
      in execute_vm_command w command (lit ''vmrun'') None)"

text \<open>
  \<^verbatim>\<open>start_vmware_vm\<close> calls \<^verbatim>\<open>command.append("-T", "ws-nogui")\<close> and
  \<^verbatim>\<open>command.append("-T", "ws")\<close> (lines 156 and 158): \<^verbatim>\<open>append\<close> with two
  arguments. The call stands outside every \<^verbatim>\<open>try\<close>, so its exception leaves
  the function.
\<close>

definition start_vmware_vm ::
  "world \<Rightarrow> pystr \<Rightarrow> bool \<Rightarrow> (py_exception + bool \<times> pystr) \<times> world" where
  "start_vmware_vm w vmx_path nogui =
     (let command = [lit ''vmrun'']
      in case (if nogui then list_append command [lit ''-T'', lit ''ws-nogui'']
               else list_append command [lit ''-T'', lit ''ws'']) of
           Inl e \<Rightarrow> (Inl e, w)
         | Inr command \<Rightarrow>
             (let command = command @ [lit ''start'', vmx_path];
                  command = (if nogui then command @ [lit ''nogui'']
                             else command @ [lit ''gui''])
              in execute_vm_command w command (lit ''vmrun'') (Some 120)))"

definition stop_vmware_vm ::
  "world \<Rightarrow> pystr \<Rightarrow> bool \<Rightarrow> (py_exception + bool \<times> pystr) \<times> world" where
  "stop_vmware_vm w vmx_path force =
     (let command = [lit ''vmrun'', lit ''-T'', lit ''ws''];
          command = command @ [lit ''stop''];
          command = command @ [vmx_path];
          command = (if force then command @ [lit ''hard''] else command @ [lit ''soft''])
      in execute_vm_command w command (lit ''vmrun'') (Some 90))"

definition execute_command_in_vmware_guest ::
  "world \<Rightarrow> pystr \<Rightarrow> pystr \<Rightarrow> pystr \<Rightarrow> pystr \<Rightarrow> (py_exception + bool \<times> pystr) \<times> world" where
  "execute_command_in_vmware_guest w vmx_path guest_user guest_pass command_to_run =
     (let command = [lit ''vmrun'', lit ''-T'', lit ''ws'', lit ''-gu'', guest_user,
                     lit ''-gp'', guest_pass, lit ''runProgramInGuest'', vmx_path,
                     lit ''-activeWindow'', command_to_run]
      in execute_vm_command w command (lit ''vmrun'') (Some 120))"

section \<open>Worlds for concrete runs\<close>

text \<open>
  A machine on which \<^verbatim>\<open>cmd\<close> and \<^verbatim>\<open>VBoxManage\<close> are installed:
  \<^verbatim>\<open>VBoxManage list vms\<close> prints one machine and exits with 0, and
  \<^verbatim>\<open>cmd /c dir\<close> prints a listing and exits with 0.
\<close>

definition fixture_world :: world where
  "fixture_world =
     \<lparr>locatable = (\<lambda>p. p = lit ''cmd'' \<or> p = lit ''VBoxManage''),
      child = (\<lambda>c. if call_args c = [lit ''VBoxManage'', lit ''list'', lit ''vms'']
                    then Exits 0 (lit ''\"MyVM\" {uuid}\<newline>'') []
                    else if call_args c = [lit ''cmd'', lit ''/c'', lit ''dir'']
                    then Exits 0 (lit ''  listing \<newline>'') []
                    else Hangs),
      run_calls = []\<rparr>"

text \<open>
  A machine on which \<^verbatim>\<open>cmd\<close> and \<^verbatim>\<open>vmrun\<close> are installed and fail:
  \<^verbatim>\<open>cmd\<close> exits with 1 and an indented message on standard error, while
  \<^verbatim>\<open>vmrun\<close> exits with 1, a message on standard error and a line on standard
  output.
\<close>

definition denied_world :: world where
  "denied_world =
     \<lparr>locatable = (\<lambda>p. p = lit ''cmd'' \<or> p = lit ''vmrun''),
      child = (\<lambda>c. if hd (call_args c) = lit ''cmd''
                    then Exits 1 [] (lit ''  Acesso negado.\<newline>'')
                    else Exits 1 (lit ''partial\<newline>'') (lit ''Error: file not found'')),
      run_calls = []\<rparr>"

text \<open>
  A machine on which \<^verbatim>\<open>cmd\<close> is installed and nothing else: the shell
  reports a command it does not know on standard error and exits with 1.
\<close>

definition missing_tool_world :: world where
  "missing_tool_world =
     \<lparr>locatable = (\<lambda>p. p = lit ''cmd''),
      child = (\<lambda>c. Exits 1 []
                 ([39] @ lit ''nope'' @ [39] @ lit '' is not recognized as an internal or external command,\<newline>operable program or batch file.\<newline>'')),
      run_calls = []\<rparr>"

text \<open>A machine on which no program can be located.\<close>

definition bare_world :: world where
  "bare_world = \<lparr>locatable = (\<lambda>p. False), child = (\<lambda>c. Hangs), run_calls = []\<rparr>"


text \<open>A machine on which every program is found and none ever exits.\<close>

definition hanging_world :: world where
  "hanging_world = \<lparr>locatable = (\<lambda>p. True), child = (\<lambda>c. Hangs), run_calls = []\<rparr>"

section \<open>What the executors do, by what the world does\<close>

lemma subprocess_run_log:
  "run_calls (snd (subprocess_run w argv enc secs)) = run_calls w @ [run_invocation argv enc secs]"
  by (simp add: subprocess_run_def Let_def split: list.splits child_outcome.splits)

lemma subprocess_run_located:
  "argv \<noteq> [] \<Longrightarrow> locatable w (hd argv) \<Longrightarrow>
   subprocess_run w argv enc secs =
     ((case child w (run_invocation argv enc secs) of
         Exits rc out err \<Rightarrow> Inr \<lparr>returncode = rc, stdout = out, stderr = err\<rparr>
       | Hangs \<Rightarrow> Inl TimeoutExpired
       | Undecodable m \<Rightarrow> Inl (Exception UnicodeDecodeError m)
       | SpawnFails m \<Rightarrow> Inl (Exception OSError m)),
      w\<lparr>run_calls := run_calls w @ [run_invocation argv enc secs]\<rparr>)"
  by (cases argv) (simp_all add: subprocess_run_def Let_def split: child_outcome.splits)

lemma subprocess_run_missing:
  "argv \<noteq> [] \<Longrightarrow> \<not> locatable w (hd argv) \<Longrightarrow>
   subprocess_run w argv enc secs =
     (Inl FileNotFoundError, w\<lparr>run_calls := run_calls w @ [run_invocation argv enc secs]\<rparr>)"
  by (cases argv) (simp_all add: subprocess_run_def Let_def)

lemma full_command_hd: "full_command sh command = Some argv \<Longrightarrow> argv \<noteq> [] \<and> hd argv = sh"
  by (auto simp: full_command_def split: if_splits)

lemma execute_command_log:
  "run_calls (snd (execute_command w command shell_type_arg timeout_arg)) =
     run_calls w @
     (case full_command (arg_or shell_type_arg (lit ''cmd'')) command of
        None \<Rightarrow> []
      | Some argv \<Rightarrow> [run_invocation argv (lit ''cp850'') (arg_or timeout_arg 30)])"
proof (cases "full_command (arg_or shell_type_arg (lit ''cmd'')) command")
  case None
  then show ?thesis
    by (simp add: execute_command_def execute_command_try_def Let_def)
next
  case (Some argv)
  have "run_calls (snd (subprocess_run w argv (lit ''cp850'') (arg_or timeout_arg 30))) =
      run_calls w @ [run_invocation argv (lit ''cp850'') (arg_or timeout_arg 30)]"
    by (rule subprocess_run_log)
  with Some show ?thesis
    by (auto simp: execute_command_def execute_command_try_def Let_def
        split: prod.splits sum.splits py_exception.splits)
qed

lemma execute_vm_command_log:
  "run_calls (snd (execute_vm_command w command tool_name timeout_arg)) =
     run_calls w @ [run_invocation command (lit ''utf-8'') (arg_or timeout_arg 60)]"
proof -
  have "run_calls (snd (subprocess_run w command (lit ''utf-8'') (arg_or timeout_arg 60))) =
      run_calls w @ [run_invocation command (lit ''utf-8'') (arg_or timeout_arg 60)]"
    by (rule subprocess_run_log)
  then show ?thesis
    by (auto simp: execute_vm_command_def execute_vm_command_try_def Let_def
        split: prod.splits sum.splits py_exception.splits)
qed



lemma execute_command_located:
  assumes "full_command (arg_or shell_type_arg (lit ''cmd'')) command = Some argv"
    and "locatable w (hd argv)"
  shows "fst (execute_command w command shell_type_arg timeout_arg) =
     (case child w (run_invocation argv (lit ''cp850'') (arg_or timeout_arg 30)) of
        Exits rc out err \<Rightarrow>
          if rc = 0 then Inr (True, strip out)
          else Inr (False, error_message (lit ''comando'')
                     \<lparr>returncode = rc, stdout = out, stderr = err\<rparr>)
      | Hangs \<Rightarrow> Inr (False, command_timeout_message (arg_or timeout_arg 30))
      | Undecodable m \<Rightarrow> Inr (False, command_unexpected_message m)
      | SpawnFails m \<Rightarrow> Inr (False, command_unexpected_message m))"
proof -
  from assms(1) have "argv \<noteq> []" using full_command_hd by blast
  with assms show ?thesis
    by (simp add: execute_command_def execute_command_try_def Let_def subprocess_run_located
        split: child_outcome.splits)
qed

lemma execute_command_missing:
  assumes "full_command (arg_or shell_type_arg (lit ''cmd'')) command = Some argv"
    and "\<not> locatable w (hd argv)"
  shows "fst (execute_command w command shell_type_arg timeout_arg) =
     Inr (False, shell_not_found_message (arg_or shell_type_arg (lit ''cmd'')))"
proof -
  from assms(1) have "argv \<noteq> []" using full_command_hd by blast
  with assms show ?thesis
    by (simp add: execute_command_def execute_command_try_def Let_def subprocess_run_missing)
qed

lemma execute_vm_command_located:
  assumes "command \<noteq> []" and "locatable w (hd command)"
  shows "fst (execute_vm_command w command tool_name timeout_arg) =
     (case child w (run_invocation command (lit ''utf-8'') (arg_or timeout_arg 60)) of
        Exits rc out err \<Rightarrow>
          if rc = 0 then Inr (True, strip out)
          else Inr (False, error_message tool_name
                     \<lparr>returncode = rc, stdout = out, stderr = err\<rparr>)
      | Hangs \<Rightarrow> Inr (False, tool_timeout_message tool_name (arg_or timeout_arg 60))
      | Undecodable m \<Rightarrow> Inr (False, tool_unexpected_message tool_name m)
      | SpawnFails m \<Rightarrow> Inr (False, tool_unexpected_message tool_name m))"
  using assms
  by (simp add: execute_vm_command_def execute_vm_command_try_def Let_def subprocess_run_located
      split: child_outcome.splits)

lemma execute_vm_command_missing:
  assumes "command \<noteq> []" and "\<not> locatable w (hd command)"
  shows "fst (execute_vm_command w command tool_name timeout_arg) =
     Inr (False, tool_not_found_message tool_name)"
  using assms
  by (simp add: execute_vm_command_def execute_vm_command_try_def Let_def subprocess_run_missing)

lemma execute_command_not_missing:
  assumes "full_command (arg_or shell_type_arg (lit ''cmd'')) command = Some argv"
    and "locatable w (hd argv)"
  shows "fst (execute_command w command shell_type_arg timeout_arg) \<noteq>
     Inr (False, shell_not_found_message (arg_or shell_type_arg (lit ''cmd'')))"
  using execute_command_located [OF assms, of timeout_arg]
  by (simp add: shell_not_found_message_def error_message_def command_timeout_message_def
      command_unexpected_message_def Let_def lit_def split: child_outcome.splits)

lemma execute_vm_command_not_missing:
  assumes "command \<noteq> []" and "locatable w (hd command)"
  shows "fst (execute_vm_command w command tool_name timeout_arg) \<noteq>
     Inr (False, tool_not_found_message tool_name)"
  using execute_vm_command_located [OF assms, of tool_name timeout_arg]
  by (simp add: tool_not_found_message_def error_message_def tool_timeout_message_def
      tool_unexpected_message_def Let_def lit_def split: child_outcome.splits)


text \<open>
  The VMware operations other than start: each makes one call, with this argument
  vector and timeout.
\<close>

lemma vmware_other_operations_argv_and_timeout:
  "run_calls (snd (list_vmware_running_vms w)) =
     run_calls w @ [run_invocation [lit ''vmrun'', lit ''list''] (lit ''utf-8'') 60] \<and>
   run_calls (snd (stop_vmware_vm w vmx_path force)) =
     run_calls w @ [run_invocation
       [lit ''vmrun'', lit ''-T'', lit ''ws'', lit ''stop'', vmx_path,
        if force then lit ''hard'' else lit ''soft''] (lit ''utf-8'') 90] \<and>
   run_calls (snd (execute_command_in_vmware_guest w vmx_path guest_user guest_pass command_to_run)) =
     run_calls w @ [run_invocation
       [lit ''vmrun'', lit ''-T'', lit ''ws'', lit ''-gu'', guest_user, lit ''-gp'', guest_pass,
        lit ''runProgramInGuest'', vmx_path, lit ''-activeWindow'', command_to_run]
       (lit ''utf-8'') 120]"
  by (simp add: list_vmware_running_vms_def stop_vmware_vm_def
      execute_command_in_vmware_guest_def Let_def execute_vm_command_log arg_or_def)

text \<open>
  A child that outlives the timeout: \<^verbatim>\<open>subprocess.run\<close> raises
  \<^verbatim>\<open>TimeoutExpired\<close>, and both executors return the flag \<open>False\<close> with a
  message that names the timeout; nothing is raised. (Killing the child is done
  inside \<^verbatim>\<open>subprocess.run\<close>; the source has no code for it, and the world of
  this model does not follow processes in time.)
\<close>

lemma timeout_is_reported:
  "(full_command (arg_or shell_type_arg (lit ''cmd'')) command = Some argv \<and>
    locatable w (hd argv) \<and>
    child w (run_invocation argv (lit ''cp850'') (arg_or timeout_arg 30)) = Hangs
    \<longrightarrow> fst (execute_command w command shell_type_arg timeout_arg) =
          Inr (False, lit ''Erro: O comando excedeu o tempo limite de '' @
                      str_int (arg_or timeout_arg 30) @ lit '' segundos.'')) \<and>
   (command \<noteq> [] \<and> locatable w (hd command) \<and>
    child w (run_invocation command (lit ''utf-8'') (arg_or timeout_arg 60)) = Hangs
    \<longrightarrow> fst (execute_vm_command w command tool_name timeout_arg) =
          Inr (False, lit ''Erro: O comando '' @ tool_name @
                      lit '' excedeu o tempo limite de '' @ str_int (arg_or timeout_arg 60) @
                      lit '' segundos.''))"
  by (simp add: execute_command_located execute_vm_command_located
      command_timeout_message_def tool_timeout_message_def)


section \<open>The claims\<close>

text \<open>
  The source has no field for an error kind: a result is the pair of the success flag
  and a text, and the kind of a failure is told by the handler that built the text.
  A result whose flag is \<open>True\<close> carries no error kind.
\<close>







text \<open>
  C4, as stated, fails for \<^verbatim>\<open>execute_command\<close>: the process it starts is the
  shell, so a command naming an executable that cannot be located is run by the shell
  and comes back through the non-zero-exit branch, not the
  \<^verbatim>\<open>FileNotFoundError\<close> handler. The comment on line 91 says so: the handler
  is for a missing \<^verbatim>\<open>cmd\<close> or \<^verbatim>\<open>powershell\<close>.
\<close>

theorem missing_executable_under_shell_counterexample:
  "\<not> locatable missing_tool_world (lit ''nope'') \<and>
   fst (execute_command missing_tool_world [lit ''nope''] (Some (lit ''cmd'')) None) =
     Inr (False, lit ''Erro ao executar comando (c'' @ [243] @ lit ''digo 1):\<newline>'' @
                 [39] @ lit ''nope'' @ [39] @ lit '' is not recognized as an internal or external command,\<newline>operable program or batch file.'') \<and>
   fst (execute_command missing_tool_world [lit ''nope''] (Some (lit ''cmd'')) None) \<noteq>
     Inr (False, lit ''Erro: '' @ [39] @ lit ''cmd'' @ [39] @ lit '' n'' @ [227] @
                 lit ''o encontrado. Verifique a instala'' @ [231, 227] @ lit ''o e o PATH.'')"
proof -
  have a: "full_command (arg_or (Some (lit ''cmd'')) (lit ''cmd'')) [lit ''nope''] =
        Some [lit ''cmd'', lit ''/c'', lit ''nope'']"
    by (simp add: full_command_def arg_or_def lit_def)
  have b: "locatable missing_tool_world (hd [lit ''cmd'', lit ''/c'', lit ''nope''])"
    by (simp add: missing_tool_world_def)
  have n: "\<not> locatable missing_tool_world (lit ''nope'')"
    by (simp add: missing_tool_world_def lit_def)
  have s: "strip ([39] @ lit ''nope'' @ [39] @ lit '' is not recognized as an internal or external command,\<newline>operable program or batch file.\<newline>'') =
      [39] @ lit ''nope'' @ [39] @ lit '' is not recognized as an internal or external command,\<newline>operable program or batch file.''"
    by (simp add: strip_def lit_def isspace_def)
  have d: "str_int 1 = lit ''1''"
    by (simp add: str_int_def nat_digits.simps lit_def)
  have r: "fst (execute_command missing_tool_world [lit ''nope''] (Some (lit ''cmd'')) None) =
     Inr (False, lit ''Erro ao executar comando (c'' @ [243] @ lit ''digo 1):\<newline>'' @
                 [39] @ lit ''nope'' @ [39] @ lit '' is not recognized as an internal or external command,\<newline>operable program or batch file.'')"
    using execute_command_located [OF a b, of None] s d
    by (simp add: missing_tool_world_def error_message_def Let_def lit_def)
  have "(Inr (False, lit ''Erro ao executar comando (c'' @ [243] @ lit ''digo 1):\<newline>'' @
                 [39] @ lit ''nope'' @ [39] @ lit '' is not recognized as an internal or external command,\<newline>operable program or batch file.'')
          :: py_exception + bool \<times> pystr) \<noteq>
     Inr (False, lit ''Erro: '' @ [39] @ lit ''cmd'' @ [39] @ lit '' n'' @ [227] @
                 lit ''o encontrado. Verifique a instala'' @ [231, 227] @ lit ''o e o PATH.'')"
    by (simp add: lit_def)
  with r n show ?thesis by simp
qed

text \<open>
  C4, amended. The not-found message is returned exactly when the program that is
  started cannot be located. For \<^verbatim>\<open>execute_command\<close> that program is the shell
  binary, for either shell kind and whatever the command names; for
  \<^verbatim>\<open>_execute_vm_command\<close> it is the first element of the command.
\<close>

theorem tool_not_found_iff_spawned_program_missing:
  "(full_command (arg_or shell_type_arg (lit ''cmd'')) command = Some argv \<longrightarrow>
      hd argv = arg_or shell_type_arg (lit ''cmd'') \<and>
      (fst (execute_command w command shell_type_arg timeout_arg) =
         Inr (False, shell_not_found_message (arg_or shell_type_arg (lit ''cmd'')))
       \<longleftrightarrow> \<not> locatable w (arg_or shell_type_arg (lit ''cmd'')))) \<and>
   (command \<noteq> [] \<longrightarrow>
      (fst (execute_vm_command w command tool_name timeout_arg) =
         Inr (False, tool_not_found_message tool_name)
       \<longleftrightarrow> \<not> locatable w (hd command)))"
proof (intro conjI impI)
  assume a: "full_command (arg_or shell_type_arg (lit ''cmd'')) command = Some argv"
  then show "hd argv = arg_or shell_type_arg (lit ''cmd'')"
    using full_command_hd by blast
  then show "fst (execute_command w command shell_type_arg timeout_arg) =
         Inr (False, shell_not_found_message (arg_or shell_type_arg (lit ''cmd'')))
       \<longleftrightarrow> \<not> locatable w (arg_or shell_type_arg (lit ''cmd''))"
    using execute_command_missing [OF a, of w timeout_arg]
      execute_command_not_missing [OF a, of w timeout_arg]
    by auto
next
  assume "command \<noteq> []"
  then show "fst (execute_vm_command w command tool_name timeout_arg) =
         Inr (False, tool_not_found_message tool_name)
       \<longleftrightarrow> \<not> locatable w (hd command)"
    using execute_vm_command_missing [of command w tool_name timeout_arg]
      execute_vm_command_not_missing [of command w tool_name timeout_arg]
    by auto
qed

theorem tool_not_found_iff_spawned_program_missing_witness:
  "fst (execute_command bare_world [lit ''dir'']
          (Some (lit ''powershell'')) None) =
     Inr (False, lit ''Erro: '' @ [39] @ lit ''powershell'' @ [39] @ lit '' n'' @ [227] @
                 lit ''o encontrado. Verifique a instala'' @ [231, 227] @ lit ''o e o PATH.'') \<and>
   fst (execute_command missing_tool_world [lit ''nope''] None None) \<noteq>
     Inr (False, lit ''Erro: '' @ [39] @ lit ''cmd'' @ [39] @ lit '' n'' @ [227] @
                 lit ''o encontrado. Verifique a instala'' @ [231, 227] @ lit ''o e o PATH.'') \<and>
   fst (execute_vm_command missing_tool_world [lit ''VBoxManage'', lit ''list'', lit ''vms'']
          (lit ''VBoxManage'') None) =
     Inr (False, lit ''Erro: Ferramenta \<newline>              '' @ [39] @ lit ''VBoxManage'' @ [39] @
                 lit '' n'' @ [227] @ lit ''o encontrada. Verifique a instala'' @ [231, 227] @
                 lit ''o e o PATH.'')"
proof -
  have a: "full_command (arg_or (Some (lit ''powershell'')) (lit ''cmd'')) [lit ''dir''] =
        Some [lit ''powershell'', lit ''-NoProfile'', lit ''-Command'', lit ''dir'']"
    by (simp add: full_command_def arg_or_def)
  have b: "full_command (arg_or None (lit ''cmd'')) [lit ''nope''] =
        Some [lit ''cmd'', lit ''/c'', lit ''nope'']"
    by (simp add: full_command_def arg_or_def lit_def)
  have c: "locatable missing_tool_world (arg_or None (lit ''cmd''))"
    by (simp add: missing_tool_world_def arg_or_def)
  have d: "\<not> locatable missing_tool_world (hd [lit ''VBoxManage'', lit ''list'', lit ''vms''])"
    by (simp add: missing_tool_world_def lit_def)
  from tool_not_found_iff_spawned_program_missing
      [where shell_type_arg = "Some (lit ''powershell'')" and command = "[lit ''dir'']"
        and argv = "[lit ''powershell'', lit ''-NoProfile'', lit ''-Command'', lit ''dir'']"
        and w = bare_world and timeout_arg = None] a
  have r1: "fst (execute_command bare_world [lit ''dir'']
          (Some (lit ''powershell'')) None) =
     Inr (False, shell_not_found_message (lit ''powershell''))"
    by (simp add: arg_or_def bare_world_def)
  from tool_not_found_iff_spawned_program_missing
      [where shell_type_arg = None and command = "[lit ''nope'']"
        and argv = "[lit ''cmd'', lit ''/c'', lit ''nope'']"
        and w = missing_tool_world and timeout_arg = None] b c
  have r2: "fst (execute_command missing_tool_world [lit ''nope''] None None) \<noteq>
     Inr (False, shell_not_found_message (lit ''cmd''))"
    by (simp add: arg_or_def)
  from tool_not_found_iff_spawned_program_missing
      [where command = "[lit ''VBoxManage'', lit ''list'', lit ''vms'']"
        and w = missing_tool_world and timeout_arg = None and tool_name = "lit ''VBoxManage''"] d
  have r3: "fst (execute_vm_command missing_tool_world [lit ''VBoxManage'', lit ''list'', lit ''vms'']
          (lit ''VBoxManage'') None) = Inr (False, tool_not_found_message (lit ''VBoxManage''))"
    by simp
  from r1 r2 r3 show ?thesis
    by (simp add: shell_not_found_message_def tool_not_found_message_def)
qed

text \<open>
  C5. The VirtualBox operations make exactly one call of \<^verbatim>\<open>subprocess.run\<close>,
  with the argument vector and the timeout of the table: list with 60 seconds (the
  default of \<^verbatim>\<open>_execute_vm_command\<close>), start with \<^verbatim>\<open>--type headless\<close> or
  \<^verbatim>\<open>--type gui\<close> and 120 seconds, stop with \<^verbatim>\<open>poweroff\<close> or
  \<^verbatim>\<open>acpipowerbutton\<close> and 90 seconds. The identifier is the third element,
  unchanged.
\<close>

theorem vbox_operations_argv_and_timeout:
  "run_calls (snd (list_vbox_vms w)) =
     run_calls w @ [run_invocation [lit ''VBoxManage'', lit ''list'', lit ''vms''] (lit ''utf-8'') 60] \<and>
   run_calls (snd (start_vbox_vm w vm_id headless)) =
     run_calls w @ [run_invocation
       [lit ''VBoxManage'', lit ''startvm'', vm_id, lit ''--type'',
        if headless then lit ''headless'' else lit ''gui''] (lit ''utf-8'') 120] \<and>
   run_calls (snd (stop_vbox_vm w vm_id force)) =
     run_calls w @ [run_invocation
       [lit ''VBoxManage'', lit ''controlvm'', vm_id,
        if force then lit ''poweroff'' else lit ''acpipowerbutton''] (lit ''utf-8'') 90]"
  by (simp add: list_vbox_vms_def start_vbox_vm_def stop_vbox_vm_def Let_def
      execute_vm_command_log arg_or_def)

theorem vbox_operations_argv_and_timeout_witness:
  "run_calls (snd (list_vbox_vms bare_world)) =
     [run_invocation [lit ''VBoxManage'', lit ''list'', lit ''vms''] (lit ''utf-8'') 60] \<and>
   run_calls (snd (start_vbox_vm bare_world (lit ''X'') True)) =
     [run_invocation [lit ''VBoxManage'', lit ''startvm'', lit ''X'', lit ''--type'',
        lit ''headless''] (lit ''utf-8'') 120] \<and>
   run_calls (snd (stop_vbox_vm bare_world (lit ''X'') False)) =
     [run_invocation [lit ''VBoxManage'', lit ''controlvm'', lit ''X'',
        lit ''acpipowerbutton''] (lit ''utf-8'') 90]"
  using vbox_operations_argv_and_timeout [of bare_world "lit ''X''" True False]
  by (simp add: bare_world_def)

text \<open>
  C6. \<^verbatim>\<open>start_vmware_vm\<close> never reaches \<^verbatim>\<open>_execute_vm_command\<close>: for
  every path and either value of \<^verbatim>\<open>nogui\<close> it raises \<^verbatim>\<open>TypeError\<close> at
  its first \<^verbatim>\<open>append\<close>, and no call is made. The table's argument vector for
  Start on VMware is therefore never built. (List, Stop and RunGuestCommand build
  theirs: \<open>vmware_other_operations_argv_and_timeout\<close>.)
\<close>

theorem start_vmware_vm_raises_type_error:
  "start_vmware_vm w vmx_path nogui =
     (Inl (Exception TypeError (lit ''list.append() takes exactly one argument (2 given)'')), w)"
proof -
  have "str_int (int (length [a, b])) = lit ''2''" for a b :: pystr
    by (simp add: str_int_def nat_digits.simps lit_def)
  then show ?thesis
    by (simp add: start_vmware_vm_def list_append_def Let_def lit_def)
qed

text \<open>
  C7, as stated, fails in its last part: the raw arguments are passed through, so a
  wrapping token of one shell kind is in the argument vector built for the other
  whenever the caller's command contains it.
\<close>

theorem raw_argument_repeats_wrapping_token_counterexample:
  "full_command (lit ''powershell'') [lit ''/c'', lit ''dir''] =
     Some [lit ''powershell'', lit ''-NoProfile'', lit ''-Command'', lit ''/c'', lit ''dir''] \<and>
   lit ''/c'' \<in> set [lit ''powershell'', lit ''-NoProfile'', lit ''-Command'', lit ''/c'', lit ''dir'']"
  by (simp add: full_command_def)

text \<open>
  C7, amended. The wrapping is a function of the raw arguments and the shell kind:
  \<^verbatim>\<open>cmd\<close> gives \<^verbatim>\<open>[cmd, /c]\<close> followed by the raw arguments,
  \<^verbatim>\<open>powershell\<close> gives \<^verbatim>\<open>[powershell, -NoProfile, -Command]\<close> followed
  by the raw arguments, equal inputs give equal vectors, and a wrapping token of one
  shell kind is in the vector built for the other only if it is among the raw
  arguments.
\<close>

theorem shell_wrapping:
  "full_command (lit ''cmd'') raw_args = Some ([lit ''cmd'', lit ''/c''] @ raw_args) \<and>
   full_command (lit ''powershell'') raw_args =
     Some ([lit ''powershell'', lit ''-NoProfile'', lit ''-Command''] @ raw_args) \<and>
   (shell_kind = shell_kind' \<and> raw_args = raw_args'
      \<longrightarrow> full_command shell_kind raw_args = full_command shell_kind' raw_args') \<and>
   (\<forall>token \<in> {lit ''powershell'', lit ''-NoProfile'', lit ''-Command''}.
      token \<in> set ([lit ''cmd'', lit ''/c''] @ raw_args) \<longrightarrow> token \<in> set raw_args) \<and>
   (\<forall>token \<in> {lit ''cmd'', lit ''/c''}.
      token \<in> set ([lit ''powershell'', lit ''-NoProfile'', lit ''-Command''] @ raw_args)
      \<longrightarrow> token \<in> set raw_args)"
  by (auto simp: full_command_def lit_def)

theorem shell_wrapping_witness:
  "full_command (lit ''cmd'') [lit ''dir'', lit ''.''] =
      Some [lit ''cmd'', lit ''/c'', lit ''dir'', lit ''.''] \<and>
   full_command (lit ''powershell'') [lit ''Get-Process''] =
      Some [lit ''powershell'', lit ''-NoProfile'', lit ''-Command'', lit ''Get-Process''] \<and>
   full_command (lit ''cmd'') [lit ''dir'', lit ''.''] =
      full_command (lit ''cmd'') ([lit ''dir''] @ [lit ''.'']) \<and>
   lit ''-Command'' \<notin> set [lit ''cmd'', lit ''/c'', lit ''dir'', lit ''.''] \<and>
   lit ''/c'' \<notin> set [lit ''powershell'', lit ''-NoProfile'', lit ''-Command'', lit ''Get-Process'']"
proof -
  note cm = shell_wrapping [where raw_args = "[lit ''dir'', lit ''.'']"]
  have r1: "full_command (lit ''cmd'') [lit ''dir'', lit ''.''] =
      Some [lit ''cmd'', lit ''/c'', lit ''dir'', lit ''.'']"
    using cm [THEN conjunct1] by simp
  note ps = shell_wrapping [where raw_args = "[lit ''Get-Process'']", THEN conjunct2]
  have r2: "full_command (lit ''powershell'') [lit ''Get-Process''] =
      Some [lit ''powershell'', lit ''-NoProfile'', lit ''-Command'', lit ''Get-Process'']"
    using ps [THEN conjunct1] by simp
  have r3: "full_command (lit ''cmd'') [lit ''dir'', lit ''.''] =
      full_command (lit ''cmd'') ([lit ''dir''] @ [lit ''.''])"
    using cm [where shell_kind = "lit ''cmd''" and shell_kind' = "lit ''cmd''"
        and raw_args' = "[lit ''dir''] @ [lit ''.'']",
        THEN conjunct2, THEN conjunct2, THEN conjunct1]
    by simp
  have a: "\<forall>token \<in> {lit ''powershell'', lit ''-NoProfile'', lit ''-Command''}.
      token \<in> set ([lit ''cmd'', lit ''/c''] @ [lit ''dir'', lit ''.''])
      \<longrightarrow> token \<in> set [lit ''dir'', lit ''.'']"
    using cm [THEN conjunct2, THEN conjunct2, THEN conjunct2, THEN conjunct1] .
  have na: "lit ''-Command'' \<notin> set [lit ''dir'', lit ''.'']"
    by (simp add: lit_def)
  have r4: "lit ''-Command'' \<notin> set [lit ''cmd'', lit ''/c'', lit ''dir'', lit ''.'']"
  proof
    assume m: "lit ''-Command'' \<in> set [lit ''cmd'', lit ''/c'', lit ''dir'', lit ''.'']"
    have "lit ''-Command'' \<in> set ([lit ''cmd'', lit ''/c''] @ [lit ''dir'', lit ''.''])
      \<longrightarrow> lit ''-Command'' \<in> set [lit ''dir'', lit ''.'']"
      using a by (rule bspec) simp
    with m have "lit ''-Command'' \<in> set [lit ''dir'', lit ''.'']"
      by simp
    with na show False ..
  qed
  have b: "\<forall>token \<in> {lit ''cmd'', lit ''/c''}.
      token \<in> set ([lit ''powershell'', lit ''-NoProfile'', lit ''-Command''] @ [lit ''Get-Process''])
      \<longrightarrow> token \<in> set [lit ''Get-Process'']"
    using ps [THEN conjunct2, THEN conjunct2, THEN conjunct2] .
  have nb: "lit ''/c'' \<notin> set [lit ''Get-Process'']"
    by (simp add: lit_def)
  have r5: "lit ''/c'' \<notin> set [lit ''powershell'', lit ''-NoProfile'', lit ''-Command'', lit ''Get-Process'']"
  proof
    assume m: "lit ''/c'' \<in> set [lit ''powershell'', lit ''-NoProfile'', lit ''-Command'', lit ''Get-Process'']"
    have "lit ''/c'' \<in> set ([lit ''powershell'', lit ''-NoProfile'', lit ''-Command''] @ [lit ''Get-Process''])
      \<longrightarrow> lit ''/c'' \<in> set [lit ''Get-Process'']"
      using b by (rule bspec) simp
    with m have "lit ''/c'' \<in> set [lit ''Get-Process'']"
      by simp
    with nb show False ..
  qed
  from r1 r2 r3 r4 r5 show ?thesis by (intro conjI)
qed

text \<open>
  C8, as stated, fails: for a shell kind other than \<^verbatim>\<open>cmd\<close> and
  \<^verbatim>\<open>powershell\<close> the \<^verbatim>\<open>else\<close> branch of line 65 returns a result in the
  normal way; nothing is raised.
\<close>

theorem unknown_shell_is_returned_counterexample:
  "execute_command fixture_world [lit ''ls''] (Some (lit ''bash'')) None =
     (Inr (False, lit ''Tipo de shell desconhecido: bash''), fixture_world)"
  by (simp add: execute_command_def execute_command_try_def full_command_def
      unknown_shell_message_def arg_or_def Let_def lit_def)

text \<open>
  C8, amended. For every shell kind other than \<^verbatim>\<open>cmd\<close> and
  \<^verbatim>\<open>powershell\<close> the request is rejected before anything is run: the function
  returns the flag \<open>False\<close> with the message naming the shell kind, and the world
  is unchanged, so no call is made and no child process is started.
\<close>

theorem unknown_shell_rejected_without_spawn:
  "shell_type \<noteq> lit ''cmd'' \<and> shell_type \<noteq> lit ''powershell'' \<longrightarrow>
     execute_command w command (Some shell_type) timeout_arg =
       (Inr (False, lit ''Tipo de shell desconhecido: '' @ shell_type), w)"
  by (simp add: execute_command_def execute_command_try_def full_command_def
      unknown_shell_message_def arg_or_def Let_def)

theorem unknown_shell_rejected_without_spawn_witness:
  "execute_command denied_world [lit ''Get-Date''] (Some (lit ''PowerShell'')) (Some 5) =
     (Inr (False, lit ''Tipo de shell desconhecido: PowerShell''), denied_world) \<and>
   run_calls (snd (execute_command denied_world [lit ''Get-Date''] (Some (lit ''PowerShell'')) (Some 5))) =
     run_calls denied_world"
proof -
  have a: "lit ''PowerShell'' \<noteq> lit ''cmd'' \<and> lit ''PowerShell'' \<noteq> lit ''powershell''"
    by (simp add: lit_def)
  from unknown_shell_rejected_without_spawn [of "lit ''PowerShell''" denied_world
      "[lit ''Get-Date'']" "Some 5"] a
  show ?thesis by (simp add: lit_def)
qed




text \<open>
  C10. A call of \<^verbatim>\<open>execute_command\<close> that omits the timeout runs the child
  with a timeout of 30 seconds, and one of \<^verbatim>\<open>_execute_vm_command\<close> with 60
  seconds: these are the deadlines handed to \<^verbatim>\<open>subprocess.run\<close>, and the
  ones the timeout messages name.
\<close>

theorem default_timeouts:
  "run_calls (snd (execute_command w command shell_type_arg None)) =
     run_calls w @
     (case full_command (arg_or shell_type_arg (lit ''cmd'')) command of
        None \<Rightarrow> []
      | Some argv \<Rightarrow> [run_invocation argv (lit ''cp850'') 30]) \<and>
   run_calls (snd (execute_vm_command w command tool_name None)) =
     run_calls w @ [run_invocation command (lit ''utf-8'') 60] \<and>
   (full_command (arg_or shell_type_arg (lit ''cmd'')) command = Some argv \<and>
    locatable w (hd argv) \<and>
    child w (run_invocation argv (lit ''cp850'') 30) = Hangs
    \<longrightarrow> fst (execute_command w command shell_type_arg None) =
          Inr (False, lit ''Erro: O comando excedeu o tempo limite de 30 segundos.'')) \<and>
   (command \<noteq> [] \<and> locatable w (hd command) \<and>
    child w (run_invocation command (lit ''utf-8'') 60) = Hangs
    \<longrightarrow> fst (execute_vm_command w command tool_name None) =
          Inr (False, lit ''Erro: O comando '' @ tool_name @
                      lit '' excedeu o tempo limite de 60 segundos.''))"
proof -
  have d30: "str_int 30 = lit ''30''"
    by (simp add: str_int_def nat_digits.simps lit_def)
  have d60: "str_int 60 = lit ''60''"
    by (simp add: str_int_def nat_digits.simps lit_def)
  have t30: "command_timeout_message 30 =
      lit ''Erro: O comando excedeu o tempo limite de 30 segundos.''"
    by (simp add: command_timeout_message_def d30) (simp add: lit_def)
  have t60: "tool_timeout_message tool_name 60 =
      lit ''Erro: O comando '' @ tool_name @ lit '' excedeu o tempo limite de 60 segundos.''"
    by (simp add: tool_timeout_message_def d60) (simp add: lit_def)
  have a0: "arg_or None (30::int) = 30" "arg_or None (60::int) = 60"
    by (simp_all add: arg_or_def)
  have l1: "run_calls (snd (execute_command w command shell_type_arg None)) =
     run_calls w @
     (case full_command (arg_or shell_type_arg (lit ''cmd'')) command of
        None \<Rightarrow> []
      | Some argv \<Rightarrow> [run_invocation argv (lit ''cp850'') 30])"
    using execute_command_log [of w command shell_type_arg None]
    by (simp add: a0 split: option.splits)
  have l2: "run_calls (snd (execute_vm_command w command tool_name None)) =
     run_calls w @ [run_invocation command (lit ''utf-8'') 60]"
    using execute_vm_command_log [of w command tool_name None] by (simp add: a0)
  have h1: "full_command (arg_or shell_type_arg (lit ''cmd'')) command = Some argv \<and>
    locatable w (hd argv) \<and>
    child w (run_invocation argv (lit ''cp850'') 30) = Hangs
    \<longrightarrow> fst (execute_command w command shell_type_arg None) =
          Inr (False, lit ''Erro: O comando excedeu o tempo limite de 30 segundos.'')"
    using execute_command_located [of shell_type_arg command argv w None]
    by (simp add: a0 t30)
  have h2: "command \<noteq> [] \<and> locatable w (hd command) \<and>
    child w (run_invocation command (lit ''utf-8'') 60) = Hangs
    \<longrightarrow> fst (execute_vm_command w command tool_name None) =
          Inr (False, lit ''Erro: O comando '' @ tool_name @
                      lit '' excedeu o tempo limite de 60 segundos.'')"
    using execute_vm_command_located [of command w tool_name None]
    by (simp add: a0 t60)
  from l1 l2 h1 h2 show ?thesis by (intro conjI)
qed


theorem default_timeouts_witness:
  "run_calls (snd (execute_command hanging_world [lit ''ping''] None None)) =
     [run_invocation [lit ''cmd'', lit ''/c'', lit ''ping''] (lit ''cp850'') 30] \<and>
   run_calls (snd (execute_vm_command hanging_world [lit ''vmrun'', lit ''list''] (lit ''vmrun'') None)) =
     [run_invocation [lit ''vmrun'', lit ''list''] (lit ''utf-8'') 60] \<and>
   fst (execute_command hanging_world [lit ''ping''] None None) =
     Inr (False, lit ''Erro: O comando excedeu o tempo limite de 30 segundos.'') \<and>
   fst (execute_vm_command hanging_world [lit ''vmrun'', lit ''list''] (lit ''vmrun'') None) =
     Inr (False, lit ''Erro: O comando vmrun excedeu o tempo limite de 60 segundos.'')"
proof -
  note inst = default_timeouts
      [where w = hanging_world and command = "[lit ''ping'']" and shell_type_arg = None
        and argv = "[lit ''cmd'', lit ''/c'', lit ''ping'']"]
  note inst' = default_timeouts
      [where w = hanging_world and command = "[lit ''vmrun'', lit ''list'']"
        and tool_name = "lit ''vmrun''"]
  have a: "full_command (arg_or None (lit ''cmd'')) [lit ''ping''] =
        Some [lit ''cmd'', lit ''/c'', lit ''ping'']"
    by (simp add: full_command_def arg_or_def lit_def)
  have e: "run_calls hanging_world = []"
    by (simp add: hanging_world_def)
  have r1: "run_calls (snd (execute_command hanging_world [lit ''ping''] None None)) =
     [run_invocation [lit ''cmd'', lit ''/c'', lit ''ping''] (lit ''cp850'') 30]"
    using inst [THEN conjunct1] a e by simp
  have r2: "run_calls (snd (execute_vm_command hanging_world [lit ''vmrun'', lit ''list'']
       (lit ''vmrun'') None)) = [run_invocation [lit ''vmrun'', lit ''list''] (lit ''utf-8'') 60]"
    using inst' [THEN conjunct2, THEN conjunct1] e by simp
  have r3: "fst (execute_command hanging_world [lit ''ping''] None None) =
     Inr (False, lit ''Erro: O comando excedeu o tempo limite de 30 segundos.'')"
    using inst [THEN conjunct2, THEN conjunct2, THEN conjunct1] a
    by (simp add: hanging_world_def)
  have r4: "fst (execute_vm_command hanging_world [lit ''vmrun'', lit ''list''] (lit ''vmrun'') None) =
     Inr (False, lit ''Erro: O comando vmrun excedeu o tempo limite de 60 segundos.'')"
    using inst' [THEN conjunct2, THEN conjunct2, THEN conjunct2]
    by (simp add: hanging_world_def) (simp add: lit_def)
  from r1 r2 r3 r4 show ?thesis by (intro conjI)
qed

end
